theory Spec2Isabelle
  imports Main "HOL-Library.Sublist" "HOL-Library.AList"
begin

section \<open>JavaScript primitives used by the route handlers\<close>

text \<open>
  The handlers are Express routes written in JavaScript. The array and string methods
  they call are modelled here with the semantics of ECMAScript: indices are integers,
  \<open>-1\<close> is the not-found sentinel of \<open>indexOf\<close>, and \<open>splice\<close> counts a negative
  start from the end of the array. Identifiers, names, messages and tokens are written
  as \<open>string\<close>: the handlers compare them, search them and test them for emptiness
  only. The values of a request body that a handler inspects further are JavaScript
  values, whose strings are lists of UTF-16 code units.
\<close>

text \<open>\<open>Array.prototype.indexOf\<close>: position of the first element equal to \<open>x\<close>, or \<open>-1\<close>.\<close>

fun indexOf :: "'a list \<Rightarrow> 'a \<Rightarrow> int" where
  "indexOf [] x = -1"
| "indexOf (y # ys) x =
     (if y = x then 0
      else (let i = indexOf ys x in if i < 0 then -1 else i + 1))"

text \<open>
  \<open>Array.prototype.splice(start, deleteCount)\<close> without inserted items, returning the
  array as it is after the call. A negative start is taken relative to the length and
  clamped at \<open>0\<close>, a start beyond the length is clamped to the length, and the delete
  count is clamped to what is left behind the start.
\<close>

definition splice_js :: "'a list \<Rightarrow> int \<Rightarrow> int \<Rightarrow> 'a list" where
  "splice_js xs start deleteCount =
     (let len = int (length xs);
          actualStart = (if start < 0 then max (len + start) 0 else min start len);
          actualDeleteCount = min (max deleteCount 0) (len - actualStart)
      in take (nat actualStart) xs @ drop (nat (actualStart + actualDeleteCount)) xs)"

text \<open>
  \<open>String.prototype.indexOf\<close>: position of the first occurrence of \<open>p\<close> as a substring,
  or \<open>-1\<close>. The empty pattern occurs at position \<open>0\<close>.
\<close>

fun str_indexOf :: "string \<Rightarrow> string \<Rightarrow> int" where
  "str_indexOf [] p = (if p = [] then 0 else -1)"
| "str_indexOf (c # cs) p =
     (if prefix p (c # cs) then 0
      else (let i = str_indexOf cs p in if i < 0 then -1 else i + 1))"

text \<open>
  An array of numbers passed where \<open>splice\<close> expects its start index is converted by
  \<open>ToIntegerOrInfinity\<close>. \<open>ToNumber\<close> of an array goes through \<open>ToPrimitive\<close>, which
  joins the elements with commas: the empty array gives the empty string, which is the
  number \<open>0\<close>; an array of one integer gives that integer's decimal numeral, which reads
  back as the integer; two or more elements give a string with a comma, which is not a
  numeric literal, so the number is \<open>NaN\<close> (here \<open>None\<close>).
  \<open>ToIntegerOrInfinity\<close> maps \<open>NaN\<close> to \<open>0\<close>.
\<close>

fun array_ToNumber :: "int list \<Rightarrow> int option" where
  "array_ToNumber [] = Some 0"
| "array_ToNumber [n] = Some n"
| "array_ToNumber (n # m # ns) = None"

definition ToIntegerOrInfinity :: "int option \<Rightarrow> int" where
  "ToIntegerOrInfinity v = (case v of None \<Rightarrow> 0 | Some n \<Rightarrow> n)"

text \<open>Truthiness of a possibly undefined string: \<open>undefined\<close> and \<open>''\<close> are falsy.\<close>

definition truthy :: "string option \<Rightarrow> bool" where
  "truthy v = (case v of None \<Rightarrow> False | Some s \<Rightarrow> s \<noteq> [])"

text \<open>\<open>Array.prototype.find\<close> is \<^const>\<open>List.find\<close>; \<open>filter\<close> is \<^const>\<open>filter\<close>.\<close>

text \<open>
  \<open>String.prototype.split(',')\<close>: the pieces between the separators, in order. A string
  without separator gives one piece, the empty string gives one empty piece.
\<close>

fun split :: "'a \<Rightarrow> 'a list \<Rightarrow> 'a list list" where
  "split sep [] = [[]]"
| "split sep (c # cs) =
     (if c = sep then [] # split sep cs
      else (case split sep cs of
              [] \<Rightarrow> [[c]]
            | w # ws \<Rightarrow> (c # w) # ws))"

text \<open>
  The values that a parsed request body hands to a handler: \<open>null\<close>, booleans, numbers,
  strings, arrays and objects. A string is the list of its UTF-16 code units, a code unit
  being a number below 65536. A finite number is \<open>Finite m e\<close> for \<open>m * 2 ^ e\<close>; both
  zeros have \<open>m = 0\<close>.
\<close>

type_synonym code_unit = nat

type_synonym jsstring = "code_unit list"

datatype jsnum = Finite int int | PosInfinity | NegInfinity | NaN

datatype jsvalue =
    JNull
  | JBool bool
  | JNum jsnum
  | JStr jsstring
  | JArr "jsvalue list"
  | JObj "(jsstring \<times> jsvalue) list"

text \<open>
  Truthiness of a value: \<open>null\<close>, \<open>false\<close>, the zeros, \<open>NaN\<close> and the empty string are
  falsy, every other value is truthy, also the empty array and the empty object. A field
  that the body does not have is \<open>undefined\<close>, which is falsy.
\<close>

fun num_truthy :: "jsnum \<Rightarrow> bool" where
  "num_truthy (Finite m e) = (m \<noteq> 0)"
| "num_truthy PosInfinity = True"
| "num_truthy NegInfinity = True"
| "num_truthy NaN = False"

fun js_truthy :: "jsvalue \<Rightarrow> bool" where
  "js_truthy JNull = False"
| "js_truthy (JBool b) = b"
| "js_truthy (JNum n) = num_truthy n"
| "js_truthy (JStr s) = (s \<noteq> [])"
| "js_truthy (JArr xs) = True"
| "js_truthy (JObj ps) = True"

definition truthy_value :: "jsvalue option \<Rightarrow> bool" where
  "truthy_value v = (case v of None \<Rightarrow> False | Some x \<Rightarrow> js_truthy x)"

text \<open>
  \<open>String.prototype.trim\<close> removes white space and line terminators from both ends.
  These are the code points TAB, LF, VT, FF, CR, SP, NBSP, U+1680, U+2000 to U+200A,
  LS, PS, U+202F, U+205F, U+3000 and the byte order mark U+FEFF; each is one code unit.
\<close>

definition is_space :: "code_unit \<Rightarrow> bool" where
  "is_space c =
     (c \<in> set [0x0009, 0x000A, 0x000B, 0x000C, 0x000D, 0x0020, 0x00A0, 0x1680,
               0x2028, 0x2029, 0x202F, 0x205F, 0x3000, 0xFEFF] \<or>
      (0x2000 \<le> c \<and> c \<le> 0x200A))"

definition trim :: "jsstring \<Rightarrow> jsstring" where
  "trim s = rev (dropWhile is_space (rev (dropWhile is_space s)))"

section \<open>Responses\<close>

text \<open>
  A response is the HTTP status and the body. \<open>res.json(x)\<close> without \<open>res.status\<close>
  answers with status 200. The body is kept generic in the document type returned.
\<close>

datatype 'd body =
    Msg string            \<comment> \<open>\<open>{ msg: ... }\<close>\<close>
  | Errors "string list"  \<comment> \<open>\<open>{ errors: [{ msg: ... }, ...] }\<close>\<close>
  | Text string           \<comment> \<open>\<open>res.send('...')\<close>\<close>
  | Doc 'd                \<comment> \<open>\<open>res.json(document)\<close>\<close>

type_synonym 'd response = "nat \<times> 'd body"

definition server_error :: "'d response" where
  "server_error = (500, Text ''Server Error'')"

section \<open>Documents and collections\<close>

record user =
  u_id :: string
  u_name :: string
  u_email :: string
  u_password :: string   \<comment> \<open>the stored hash\<close>
  u_avatar :: string

record experience =
  exp_id :: string
  exp_title :: string
  exp_company :: string
  exp_location :: "string option"
  exp_from :: string
  exp_to :: "string option"
  exp_current :: "bool option"
  exp_description :: "string option"

record education =
  edu_id :: string
  edu_school :: string
  edu_degree :: string
  edu_fieldofstudy :: string
  edu_from :: string
  edu_to :: "string option"
  edu_current :: "bool option"
  edu_description :: "string option"

record profile =
  profile_user :: string
  experience :: "experience list"
  education :: "education list"

text \<open>The Post schema: a like holds a user reference, a comment a snapshot of its author.\<close>

record like =
  like_user :: string

record comment =
  comment_id :: string
  comment_user :: string
  comment_text :: string
  comment_name :: string
  comment_avatar :: string

record post =
  post_id :: string
  post_user :: string
  post_text :: string
  post_name :: string
  post_avatar :: string
  likes :: "like list"
  comments :: "comment list"

text \<open>The document store: one collection per model, in insertion order.\<close>

record db =
  users :: "user list"
  profiles :: "profile list"
  posts :: "post list"

text \<open>
  \<open>Model.findById(id)\<close>. An identifier that is not an ObjectId makes the query throw a
  CastError; which strings are ObjectIds is decided by the database driver, so it is the
  parameter \<open>valid_oid\<close>. Otherwise the result is the document with that identifier, or
  \<open>null\<close>.
\<close>

datatype store_error = CastError

definition findById ::
  "(string \<Rightarrow> bool) \<Rightarrow> ('a \<Rightarrow> string) \<Rightarrow> string \<Rightarrow> 'a list \<Rightarrow> store_error + 'a option" where
  "findById valid_oid key i xs =
     (if valid_oid i then Inr (find (\<lambda>x. key x = i) xs) else Inl CastError)"

text \<open>\<open>findOneAndRemove\<close> and \<open>doc.remove()\<close> delete the first document matching.\<close>

fun remove_first :: "('a \<Rightarrow> bool) \<Rightarrow> 'a list \<Rightarrow> 'a list" where
  "remove_first P [] = []"
| "remove_first P (x # xs) = (if P x then xs else x # remove_first P xs)"

text \<open>\<open>doc.save()\<close> of a fetched document: it replaces the stored document it came from.\<close>

fun save_doc :: "('a \<Rightarrow> string) \<Rightarrow> 'a \<Rightarrow> 'a list \<Rightarrow> 'a list" where
  "save_doc key d [] = []"
| "save_doc key d (x # xs) = (if key x = key d then d # xs else x # save_doc key d xs)"

text \<open>
  \<open>Profile.findOne({ user: id })\<close>: the first profile of the collection whose user
  reference is \<open>id\<close>, or \<open>null\<close>.
\<close>

definition findOne_profile :: "string \<Rightarrow> profile list \<Rightarrow> profile option" where
  "findOne_profile u ps = find (\<lambda>p. profile_user p = u) ps"

section \<open>Profile routes\<close>

text \<open>
  \<open>router.delete('/experience/:exp_id')\<close>. A missing profile makes
  \<open>profile.experience\<close> throw a TypeError inside the \<open>try\<close>, answered with 500.
\<close>

definition delete_experience :: "string \<Rightarrow> string \<Rightarrow> db \<Rightarrow> profile response \<times> db" where
  "delete_experience exp_id_param user_id d =
     (case findOne_profile user_id (profiles d) of
        None \<Rightarrow> (server_error, d)
      | Some profile \<Rightarrow>
          (let removeIndex = indexOf (map exp_id (experience profile)) exp_id_param;
               profile' = profile\<lparr>experience := splice_js (experience profile) removeIndex 1\<rparr>
           in ((200, Doc profile'),
               d\<lparr>profiles := save_doc profile_user profile' (profiles d)\<rparr>)))"

text \<open>\<open>router.delete('/education/:edu_id')\<close>, the same code on the education list.\<close>

definition delete_education :: "string \<Rightarrow> string \<Rightarrow> db \<Rightarrow> profile response \<times> db" where
  "delete_education edu_id_param user_id d =
     (case findOne_profile user_id (profiles d) of
        None \<Rightarrow> (server_error, d)
      | Some profile \<Rightarrow>
          (let removeIndex = indexOf (map edu_id (education profile)) edu_id_param;
               profile' = profile\<lparr>education := splice_js (education profile) removeIndex 1\<rparr>
           in ((200, Doc profile'),
               d\<lparr>profiles := save_doc profile_user profile' (profiles d)\<rparr>)))"

text \<open>
  \<open>router.delete('/')\<close>: removes the profile of the identity, then the user. The posts
  of the user are left (the source marks their removal as a todo).
\<close>

definition delete_account :: "string \<Rightarrow> db \<Rightarrow> unit response \<times> db" where
  "delete_account user_id d =
     (let d1 = d\<lparr>profiles := remove_first (\<lambda>p. profile_user p = user_id) (profiles d)\<rparr>;
          d2 = d1\<lparr>users := remove_first (\<lambda>u. u_id u = user_id) (users d1)\<rparr>
      in ((200, Msg ''User deleted''), d2))"

text \<open>
  \<open>router.post('/')\<close>: the profile fields object. A JavaScript object is a list of
  properties in insertion order; assigning a property is \<^const>\<open>AList.update\<close>. The
  request body maps a field name to its value (\<open>None\<close> is \<open>undefined\<close>). A property of
  the object holds the identity of the token, a value taken from the body, or an object
  built by the handler.
\<close>

datatype pval = Id string | Val jsvalue | Obj "(string \<times> pval) list"

type_synonym jsobj = "(string \<times> pval) list"

text \<open>\<open>if (v) obj.k = v\<close>\<close>

definition assign_if :: "string \<Rightarrow> jsvalue option \<Rightarrow> jsobj \<Rightarrow> jsobj" where
  "assign_if k v obj =
     (case v of
        None \<Rightarrow> obj
      | Some x \<Rightarrow> if js_truthy x then AList.update k (Val x) obj else obj)"

definition build_social :: "(string \<rightharpoonup> jsvalue) \<Rightarrow> jsobj" where
  "build_social body =
     (let social = [];
          social = assign_if ''youtube'' (body ''youtube'') social;
          social = assign_if ''twitter'' (body ''twitter'') social;
          social = assign_if ''facebook'' (body ''facebook'') social;
          social = assign_if ''linkedin'' (body ''linkedin'') social;
          social = assign_if ''instagram'' (body ''instagram'') social
      in social)"

text \<open>
  \<open>if (skills) { profileFields.skills = skills.split(',').map((skill) => skill.trim()); }\<close>
  Only a string has the method \<open>split\<close>: for every other truthy value (a number, \<open>true\<close>,
  an array, an object) \<open>skills.split\<close> is not a function and the call throws a
  TypeError.
\<close>

datatype js_error = TypeError

definition assign_skills :: "jsvalue option \<Rightarrow> jsobj \<Rightarrow> js_error + jsobj" where
  "assign_skills skills obj =
     (case skills of
        None \<Rightarrow> Inr obj
      | Some v \<Rightarrow>
          if \<not> js_truthy v then Inr obj
          else
            (case v of
               JStr s \<Rightarrow>
                 Inr (AList.update ''skills''
                        (Val (JArr (map (\<lambda>skill. JStr (trim skill))
                                      (split (of_char CHR '','') s))))
                        obj)
             | _ \<Rightarrow> Inl TypeError))"

definition build_profileFields :: "string \<Rightarrow> (string \<rightharpoonup> jsvalue) \<Rightarrow> js_error + jsobj" where
  "build_profileFields user_id body =
     (let profileFields = [];
          profileFields = AList.update ''user'' (Id user_id) profileFields;
          profileFields = assign_if ''company'' (body ''company'') profileFields;
          profileFields = assign_if ''website'' (body ''website'') profileFields;
          profileFields = assign_if ''location'' (body ''location'') profileFields;
          profileFields = assign_if ''bio'' (body ''bio'') profileFields;
          profileFields = assign_if ''status'' (body ''status'') profileFields;
          profileFields = assign_if ''githubusername'' (body ''githubusername'') profileFields
      in case assign_skills (body ''skills'') profileFields of
           Inl err \<Rightarrow> Inl err
         | Inr profileFields \<Rightarrow>
             Inr (AList.update ''social'' (Obj (build_social body)) profileFields))"

text \<open>
  The validators of the route: \<open>status\<close> and \<open>skills\<close> must not be empty. What the
  validator library takes for empty is its own matter, so its test is the parameter
  \<open>isEmpty\<close>. The profile fields are built before the \<open>try\<close> of the handler: an error
  thrown there is not caught, no response is sent and nothing is written. Otherwise the
  handler looks the profile of the identity up and issues one write with the profile
  fields: an update of the existing profile (\<open>$set\<close>), or the creation of a new one.
\<close>

definition validate_profile :: "(jsvalue option \<Rightarrow> bool) \<Rightarrow> (string \<rightharpoonup> jsvalue) \<Rightarrow> string list" where
  "validate_profile isEmpty body =
     (if \<not> isEmpty (body ''status'') then [] else [''Status is required'']) @
     (if \<not> isEmpty (body ''skills'') then [] else [''Skills is required''])"

datatype store_write = FindOneAndUpdate string jsobj | SaveNew jsobj

datatype upsert_result =
    Responded "unit response"
  | Uncaught js_error
  | Issued store_write

definition post_profile ::
  "(jsvalue option \<Rightarrow> bool) \<Rightarrow> (string \<rightharpoonup> jsvalue) \<Rightarrow> string \<Rightarrow> db \<Rightarrow> upsert_result" where
  "post_profile isEmpty body user_id d =
     (let errors = validate_profile isEmpty body in
      if errors \<noteq> [] then Responded (400, Errors errors)
      else
        (case build_profileFields user_id body of
           Inl err \<Rightarrow> Uncaught err
         | Inr profileFields \<Rightarrow>
             (case findOne_profile user_id (profiles d) of
                Some profile \<Rightarrow> Issued (FindOneAndUpdate user_id profileFields)
              | None \<Rightarrow> Issued (SaveNew profileFields))))"

section \<open>Post routes\<close>

text \<open>The validator of the routes that take a text: it must not be empty.\<close>

definition validate_text :: "string option \<Rightarrow> string list" where
  "validate_text text = (if truthy text then [] else [''Text is required''])"

text \<open>
  \<open>router.post('/')\<close>: creates a post with a snapshot of the author's name and avatar.
  \<open>new_id\<close> is the identifier the database gives the new document. A missing user
  makes \<open>user.name\<close> throw, answered with 500.
\<close>

definition create_post ::
  "(string \<Rightarrow> bool) \<Rightarrow> string \<Rightarrow> string option \<Rightarrow> string \<Rightarrow> db \<Rightarrow> post response \<times> db" where
  "create_post valid_oid new_id text user_id d =
     (let errors = validate_text text in
      if errors \<noteq> [] then ((400, Errors errors), d)
      else
        (case findById valid_oid u_id user_id (users d) of
           Inl err \<Rightarrow> (server_error, d)
         | Inr None \<Rightarrow> (server_error, d)
         | Inr (Some user) \<Rightarrow>
             (let newPost = \<lparr>post_id = new_id, post_user = user_id,
                             post_text = (case text of None \<Rightarrow> [] | Some t \<Rightarrow> t),
                             post_name = u_name user, post_avatar = u_avatar user,
                             likes = [], comments = []\<rparr>
              in ((200, Doc newPost), d\<lparr>posts := posts d @ [newPost]\<rparr>))))"

text \<open>
  \<open>router.delete('/:id')\<close>: a CastError has kind \<open>ObjectId\<close> and is answered like a
  missing post.
\<close>

definition delete_post ::
  "(string \<Rightarrow> bool) \<Rightarrow> string \<Rightarrow> string \<Rightarrow> db \<Rightarrow> unit response \<times> db" where
  "delete_post valid_oid id_param user_id d =
     (case findById valid_oid post_id id_param (posts d) of
        Inl err \<Rightarrow> ((404, Msg ''Post not found''), d)
      | Inr None \<Rightarrow> ((404, Msg ''Post not found''), d)
      | Inr (Some post) \<Rightarrow>
          if post_user post \<noteq> user_id then ((401, Msg ''User not authorised''), d)
          else ((200, Msg ''Post removed''),
                d\<lparr>posts := remove_first (\<lambda>p. post_id p = post_id post) (posts d)\<rparr>))"

text \<open>
  \<open>router.put('/like/:id')\<close>. The result of \<open>findById\<close> is not checked: on \<open>null\<close>,
  \<open>post.likes\<close> throws a TypeError, and the \<open>catch\<close> answers every error with 500.
\<close>

definition put_like ::
  "(string \<Rightarrow> bool) \<Rightarrow> string \<Rightarrow> string \<Rightarrow> db \<Rightarrow> like list response \<times> db" where
  "put_like valid_oid id_param user_id d =
     (case findById valid_oid post_id id_param (posts d) of
        Inl err \<Rightarrow> (server_error, d)
      | Inr None \<Rightarrow> (server_error, d)
      | Inr (Some post) \<Rightarrow>
          if length (filter (\<lambda>like. like_user like = user_id) (likes post)) > 0
          then ((400, Msg ''Post already liked''), d)
          else
            (let post' = post\<lparr>likes := \<lparr>like_user = user_id\<rparr> # likes post\<rparr>
             in ((200, Doc (likes post')), d\<lparr>posts := save_doc post_id post' (posts d)\<rparr>)))"

text \<open>
  \<open>router.put('/unlike/:id')\<close>. \<open>removeIndex\<close> is the array that \<open>map\<close> returns: for
  each like, the position of the identity inside the like's user reference. \<open>splice\<close>
  converts that array to its start index.
\<close>

definition put_unlike ::
  "(string \<Rightarrow> bool) \<Rightarrow> string \<Rightarrow> string \<Rightarrow> db \<Rightarrow> like list response \<times> db" where
  "put_unlike valid_oid id_param user_id d =
     (case findById valid_oid post_id id_param (posts d) of
        Inl err \<Rightarrow> (server_error, d)
      | Inr None \<Rightarrow> (server_error, d)
      | Inr (Some post) \<Rightarrow>
          if length (filter (\<lambda>like. like_user like = user_id) (likes post)) = 0
          then ((400, Msg ''Post has not yet been liked''), d)
          else
            (let removeIndex = map (\<lambda>like. str_indexOf (like_user like) user_id) (likes post);
                 post' = post\<lparr>likes :=
                           splice_js (likes post) (ToIntegerOrInfinity (array_ToNumber removeIndex)) 1\<rparr>
             in ((200, Doc (likes post')), d\<lparr>posts := save_doc post_id post' (posts d)\<rparr>)))"

text \<open>
  \<open>router.post('/comment/:id')\<close>: the comment is put in front. \<open>new_id\<close> is the
  identifier the database gives the new sub-document.
\<close>

definition post_comment ::
  "(string \<Rightarrow> bool) \<Rightarrow> string \<Rightarrow> string option \<Rightarrow> string \<Rightarrow> string \<Rightarrow> db
     \<Rightarrow> post response \<times> db" where
  "post_comment valid_oid new_id text id_param user_id d =
     (let errors = validate_text text in
      if errors \<noteq> [] then ((400, Errors errors), d)
      else
        (case findById valid_oid u_id user_id (users d) of
           Inl err \<Rightarrow> (server_error, d)
         | Inr user_opt \<Rightarrow>
             (case findById valid_oid post_id id_param (posts d) of
                Inl err \<Rightarrow> (server_error, d)
              | Inr post_opt \<Rightarrow>
                  (case user_opt of
                     None \<Rightarrow> (server_error, d)
                   | Some user \<Rightarrow>
                       (case post_opt of
                          None \<Rightarrow> (server_error, d)
                        | Some post \<Rightarrow>
                            (let newComment =
                                   \<lparr>comment_id = new_id, comment_user = user_id,
                                    comment_text = (case text of None \<Rightarrow> [] | Some t \<Rightarrow> t),
                                    comment_name = u_name user,
                                    comment_avatar = u_avatar user\<rparr>;
                                 post' = post\<lparr>comments := newComment # comments post\<rparr>
                             in ((200, Doc post'),
                                 d\<lparr>posts := save_doc post_id post' (posts d)\<rparr>)))))))"

text \<open>
  \<open>router.delete('/comment/:id/:comment_id')\<close>. The \<open>catch\<close> answers every error with
  500, also the CastError and the TypeError of a missing post.
\<close>

definition delete_comment ::
  "(string \<Rightarrow> bool) \<Rightarrow> string \<Rightarrow> string \<Rightarrow> string \<Rightarrow> db \<Rightarrow> comment list response \<times> db" where
  "delete_comment valid_oid id_param comment_id_param user_id d =
     (case findById valid_oid post_id id_param (posts d) of
        Inl err \<Rightarrow> (server_error, d)
      | Inr None \<Rightarrow> (server_error, d)
      | Inr (Some post) \<Rightarrow>
          (case find (\<lambda>comment. comment_id comment = comment_id_param) (comments post) of
             None \<Rightarrow> ((404, Msg ''Comment does not exist''), d)
           | Some comment \<Rightarrow>
               if comment_user comment \<noteq> user_id then ((401, Msg ''User not authorized''), d)
               else
                 (let post' = post\<lparr>comments :=
                                filter (\<lambda>c. comment_id c \<noteq> comment_id_param) (comments post)\<rparr>
                  in ((200, Doc (comments post')),
                      d\<lparr>posts := save_doc post_id post' (posts d)\<rparr>))))"

text \<open>
  The states of the post collection that the routes can reach. Only the post routes
  write to it; every other route leaves it as it is. The database gives a new post an
  identifier that no stored post has.
\<close>

inductive reachable :: "db \<Rightarrow> bool" where
  reach_init: "posts d = [] \<Longrightarrow> reachable d"
| reach_other: "reachable d \<Longrightarrow> posts d' = posts d \<Longrightarrow> reachable d'"
| reach_create:
    "reachable d \<Longrightarrow> new_id \<notin> post_id ` set (posts d)
       \<Longrightarrow> reachable (snd (create_post valid_oid new_id text user_id d))"
| reach_delete: "reachable d \<Longrightarrow> reachable (snd (delete_post valid_oid id_param user_id d))"
| reach_like: "reachable d \<Longrightarrow> reachable (snd (put_like valid_oid id_param user_id d))"
| reach_unlike: "reachable d \<Longrightarrow> reachable (snd (put_unlike valid_oid id_param user_id d))"
| reach_comment:
    "reachable d \<Longrightarrow> reachable (snd (post_comment valid_oid new_id text id_param user_id d))"
| reach_delete_comment:
    "reachable d
       \<Longrightarrow> reachable (snd (delete_comment valid_oid id_param comment_id_param user_id d))"

section \<open>Tokens, the auth middleware and login\<close>

text \<open>
  The token library is outside the repository and enters as two parameters. \<open>sign\<close>
  takes the payload, the secret, the \<open>expiresIn\<close> option (seconds) and the clock (seconds);
  it gives the token to its callback, or an error, either before it returns or later.
  \<open>verify\<close> takes the token, the secret and the clock and returns the payload, or throws
  (\<open>None\<close>). The payload is \<open>{ user: { id } }\<close>.
\<close>

record payload =
  payload_user_id :: string

datatype sign_result = Signed string | Sign_failed_sync | Sign_failed_async

type_synonym jwt_sign = "payload \<Rightarrow> string \<Rightarrow> nat \<Rightarrow> nat \<Rightarrow> sign_result"

type_synonym jwt_verify = "string \<Rightarrow> string \<Rightarrow> nat \<Rightarrow> payload option"

text \<open>
  What the routes rely on: a token that \<open>sign\<close> produced is not empty, and \<open>verify\<close> with
  the same secret returns its payload as long as the clock is before the time of
  issuance plus \<open>expiresIn\<close>, and throws from then on.
\<close>

definition jwt_contract :: "jwt_sign \<Rightarrow> jwt_verify \<Rightarrow> bool" where
  "jwt_contract sign verify =
     (\<forall>p secret expiresIn iat tok now.
        sign p secret expiresIn iat = Signed tok \<longrightarrow>
          tok \<noteq> [] \<and>
          verify tok secret now = (if now < iat + expiresIn then Some p else None))"

text \<open>
  The auth middleware. The outcome is a response, or \<open>next()\<close> with \<open>req.user\<close> set; the
  second component lists the tokens that were handed to \<open>jwt.verify\<close>.
\<close>

datatype 'd guard = Respond "'d response" | Next payload

definition auth ::
  "jwt_verify \<Rightarrow> string \<Rightarrow> nat \<Rightarrow> string option \<Rightarrow> 'd guard \<times> string list" where
  "auth verify jwtSecret now token =
     (if \<not> truthy token then (Respond (401, Msg ''No token, authorisation denied''), [])
      else
        (let t = (case token of None \<Rightarrow> [] | Some t \<Rightarrow> t) in
         case verify t jwtSecret now of
           Some decoded \<Rightarrow> (Next decoded, [t])
         | None \<Rightarrow> (Respond (401, Msg ''Token is not valid''), [t])))"

text \<open>
  A private route: the middleware runs first, the handler only after \<open>next()\<close>, with the
  identity of the token.
\<close>

definition private_route ::
  "jwt_verify \<Rightarrow> string \<Rightarrow> nat \<Rightarrow> (string \<Rightarrow> db \<Rightarrow> 'd response \<times> db) \<Rightarrow> string option \<Rightarrow> db
     \<Rightarrow> ('d response \<times> db) \<times> string list" where
  "private_route verify jwtSecret now handler token d =
     (case auth verify jwtSecret now token of
        (Respond r, calls) \<Rightarrow> ((r, d), calls)
      | (Next req_user, calls) \<Rightarrow> (handler (payload_user_id req_user) d, calls))"

text \<open>
  \<open>router.post('/')\<close> of the auth routes (login). \<open>isEmail\<close> is the validator library's
  test and \<open>compare\<close> the hash library's comparison of a password with a stored hash.
  The result is \<open>None\<close> when no response is sent: an error that \<open>sign\<close> reports after it
  has returned is thrown from the callback, outside the \<open>try\<close>.
\<close>

definition expiresIn :: nat where
  "expiresIn = 360000"

definition validate_login :: "(string \<Rightarrow> bool) \<Rightarrow> string option \<Rightarrow> string option \<Rightarrow> string list" where
  "validate_login isEmail email password =
     (if isEmail (case email of None \<Rightarrow> [] | Some e \<Rightarrow> e) then []
      else [''Please include a valid email'']) @
     (if password = None then [''Password is required''] else [])"

definition login ::
  "(string \<Rightarrow> bool) \<Rightarrow> (string \<Rightarrow> string \<Rightarrow> bool) \<Rightarrow> jwt_sign \<Rightarrow> string \<Rightarrow> nat
     \<Rightarrow> string option \<Rightarrow> string option \<Rightarrow> db \<Rightarrow> string response option" where
  "login isEmail compare sign jwtSecret now email password d =
     (let errors = validate_login isEmail email password in
      if errors \<noteq> [] then Some (400, Errors errors)
      else
        (case find (\<lambda>u. Some (u_email u) = email) (users d) of
           None \<Rightarrow> Some (400, Errors [''Invalid credentials''])
         | Some user \<Rightarrow>
             (let isMatch = compare (case password of None \<Rightarrow> [] | Some p \<Rightarrow> p) (u_password user)
              in if \<not> isMatch then Some (400, Errors [''Invalid credentials''])
                 else
                   (case sign \<lparr>payload_user_id = u_id user\<rparr> jwtSecret expiresIn now of
                      Signed token \<Rightarrow> Some (200, Doc token)
                    | Sign_failed_sync \<Rightarrow> Some (500, Text ''Server error'')
                    | Sign_failed_async \<Rightarrow> None))))"

section \<open>Notions used to state the properties\<close>

text \<open>At most one like per identity, in every post of the collection.\<close>

definition likes_distinct :: "post list \<Rightarrow> bool" where
  "likes_distinct ps = (\<forall>p \<in> set ps. distinct (map like_user (likes p)))"

text \<open>
  The profile fields, stated directly. A field contributes a property
  when its value in the body is truthy, and then with that value; the skills contribute
  the list of the trimmed pieces of a non-empty string.
\<close>

definition field_entry :: "(string \<rightharpoonup> jsvalue) \<Rightarrow> string \<Rightarrow> jsobj" where
  "field_entry body k =
     (case body k of None \<Rightarrow> [] | Some v \<Rightarrow> if js_truthy v then [(k, Val v)] else [])"

definition skills_entry :: "(string \<rightharpoonup> jsvalue) \<Rightarrow> jsobj" where
  "skills_entry body =
     (case body ''skills'' of
        Some (JStr s) \<Rightarrow>
          if s = [] then []
          else [(''skills'', Val (JArr (map (\<lambda>piece. JStr (trim piece)) (split 0x2C s))))]
      | _ \<Rightarrow> [])"

definition text_fields :: "string list" where
  "text_fields = [''company'', ''website'', ''location'', ''bio'', ''status'', ''githubusername'']"

definition social_fields :: "string list" where
  "social_fields = [''youtube'', ''twitter'', ''facebook'', ''linkedin'', ''instagram'']"

definition canonical_social :: "(string \<rightharpoonup> jsvalue) \<Rightarrow> jsobj" where
  "canonical_social body = concat (map (field_entry body) social_fields)"

definition canonical_fields :: "string \<Rightarrow> (string \<rightharpoonup> jsvalue) \<Rightarrow> jsobj" where
  "canonical_fields user_id body =
     [(''user'', Id user_id)] @ concat (map (field_entry body) text_fields) @
     skills_entry body @ [(''social'', Obj (canonical_social body))]"

text \<open>The skills are undefined, falsy or a string: the values that \<open>split\<close> is safe on.\<close>

definition skills_usable :: "jsvalue option \<Rightarrow> bool" where
  "skills_usable v =
     (case v of
        None \<Rightarrow> True
      | Some (JStr s) \<Rightarrow> True
      | Some x \<Rightarrow> \<not> js_truthy x)"

definition written_fields :: "store_write \<Rightarrow> jsobj" where
  "written_fields w = (case w of FindOneAndUpdate u obj \<Rightarrow> obj | SaveNew obj \<Rightarrow> obj)"

section \<open>Sample collaborators and sample data\<close>

text \<open>
  An executable token library that meets \<^const>\<open>jwt_contract\<close>: a token is the expiry
  time and the length of the identity in binary, the identity, and the secret in the
  place of the signature.
\<close>

fun bits :: "nat \<Rightarrow> string" where
  "bits n = (if n = 0 then [] else (if odd n then CHR ''1'' else CHR ''0'') # bits (n div 2))"

fun unbits :: "string \<Rightarrow> nat" where
  "unbits [] = 0"
| "unbits (c # cs) = (if c = CHR ''1'' then 1 else 0) + 2 * unbits cs"

definition field_of :: "string \<Rightarrow> string" where
  "field_of s = takeWhile (\<lambda>c. c \<noteq> CHR ''.'') s"

definition after_field :: "string \<Rightarrow> string" where
  "after_field s = tl (dropWhile (\<lambda>c. c \<noteq> CHR ''.'') s)"

definition sample_sign :: jwt_sign where
  "sample_sign p secret expires_in iat =
     Signed (bits (iat + expires_in) @ ''.'' @ bits (length (payload_user_id p)) @ ''.'' @
             payload_user_id p @ secret)"

definition sample_verify :: jwt_verify where
  "sample_verify tok secret now =
     (let exp = unbits (field_of tok);
          rest = after_field tok;
          n = unbits (field_of rest);
          rest' = after_field rest
      in if drop n rest' = secret \<and> n \<le> length rest' \<and> now < exp
         then Some \<lparr>payload_user_id = take n rest'\<rparr> else None)"

definition sample_isEmail :: "string \<Rightarrow> bool" where
  "sample_isEmail s = (CHR ''@'' \<in> set s)"

definition sample_compare :: "string \<Rightarrow> string \<Rightarrow> bool" where
  "sample_compare password hash = (hash = ''#'' @ password)"

definition exp_a :: experience where
  "exp_a = \<lparr>exp_id = ''e1'', exp_title = ''Engineer'', exp_company = ''Acme'',
            exp_location = None, exp_from = ''2018-01-01'', exp_to = Some ''2019-01-01'',
            exp_current = Some False, exp_description = None\<rparr>"

definition exp_b :: experience where
  "exp_b = \<lparr>exp_id = ''e2'', exp_title = ''Lead'', exp_company = ''Initech'',
            exp_location = Some ''Leeds'', exp_from = ''2019-02-01'', exp_to = None,
            exp_current = Some True, exp_description = None\<rparr>"

definition edu_a :: education where
  "edu_a = \<lparr>edu_id = ''s1'', edu_school = ''Leeds'', edu_degree = ''BSc'',
            edu_fieldofstudy = ''Physics'', edu_from = ''2010-09-01'',
            edu_to = Some ''2013-06-30'', edu_current = Some False, edu_description = None\<rparr>"

definition edu_b :: education where
  "edu_b = \<lparr>edu_id = ''s2'', edu_school = ''York'', edu_degree = ''MSc'',
            edu_fieldofstudy = ''Computing'', edu_from = ''2013-09-01'',
            edu_to = Some ''2014-09-30'', edu_current = Some False, edu_description = None\<rparr>"

definition profile_1 :: profile where
  "profile_1 = \<lparr>profile_user = ''u1'', experience = [exp_a, exp_b], education = [edu_a, edu_b]\<rparr>"

definition user_1 :: user where
  "user_1 = \<lparr>u_id = ''u1'', u_name = ''Ann'', u_email = ''ann@example.org'',
             u_password = ''#pw1'', u_avatar = ''a1''\<rparr>"

definition user_2 :: user where
  "user_2 = \<lparr>u_id = ''u2'', u_name = ''Bob'', u_email = ''bob@example.org'',
             u_password = ''#pw2'', u_avatar = ''a2''\<rparr>"

definition post_1 :: post where
  "post_1 = \<lparr>post_id = ''p1'', post_user = ''u1'', post_text = ''hello'', post_name = ''Ann'',
             post_avatar = ''a1'',
             likes = [\<lparr>like_user = ''u2''\<rparr>, \<lparr>like_user = ''u1''\<rparr>], comments = []\<rparr>"

definition db_0 :: db where
  "db_0 = \<lparr>users = [user_1, user_2], profiles = [profile_1], posts = []\<rparr>"

definition db_1 :: db where
  "db_1 = \<lparr>users = [user_1, user_2], profiles = [profile_1], posts = [post_1]\<rparr>"

definition comment_1 :: comment where
  "comment_1 = \<lparr>comment_id = ''c1'', comment_user = ''u1'', comment_text = ''first'',
                comment_name = ''Ann'', comment_avatar = ''a1''\<rparr>"

definition comment_2 :: comment where
  "comment_2 = \<lparr>comment_id = ''c2'', comment_user = ''u2'', comment_text = ''second'',
                comment_name = ''Bob'', comment_avatar = ''a2''\<rparr>"

definition post_2 :: post where
  "post_2 = \<lparr>post_id = ''p2'', post_user = ''u2'', post_text = ''news'', post_name = ''Bob'',
             post_avatar = ''a2'', likes = [], comments = [comment_2, comment_1]\<rparr>"

definition db_2 :: db where
  "db_2 = \<lparr>users = [user_1, user_2], profiles = [profile_1], posts = [post_2]\<rparr>"

text \<open>An ASCII string literal as a list of code units.\<close>

definition lit :: "string \<Rightarrow> jsstring" where
  "lit s = map of_char s"

text \<open>
  A sample of the emptiness test of the validator library: \<open>undefined\<close>, \<open>null\<close> and the
  empty string are empty, every other value is not.
\<close>

definition sample_isEmpty :: "jsvalue option \<Rightarrow> bool" where
  "sample_isEmpty v =
     (case v of
        None \<Rightarrow> True
      | Some JNull \<Rightarrow> True
      | Some (JStr s) \<Rightarrow> s = []
      | Some x \<Rightarrow> False)"

text \<open>
  Sample bodies: one with an empty company; one whose skills begin with a space and end
  with a no-break space; one whose skills are an array.
\<close>

definition body_1 :: "string \<rightharpoonup> jsvalue" where
  "body_1 = map_of [(''company'', JStr []), (''status'', JStr (lit ''Developer'')),
                    (''skills'', JStr (lit ''HTML, CSS ,JS''))]"

definition body_2 :: "string \<rightharpoonup> jsvalue" where
  "body_2 = map_of [(''website'', JStr (lit ''https://ann.example.org'')),
                    (''status'', JStr (lit ''Developer'')),
                    (''skills'', JStr (lit '' HTML,CSS'' @ [0x00A0])),
                    (''twitter'', JStr (lit ''@ann''))]"

definition body_3 :: "string \<rightharpoonup> jsvalue" where
  "body_3 = map_of [(''status'', JStr (lit ''Developer'')),
                    (''skills'', JArr [JStr (lit ''HTML''), JStr (lit ''CSS'')])]"

declare bits.simps [simp del]

section \<open>Facts about the primitives\<close>

lemma indexOf_absent: "x \<notin> set xs \<Longrightarrow> indexOf xs x = -1"
  by (induction xs) (auto simp: Let_def)

lemma indexOf_present: "x \<in> set xs \<Longrightarrow> 0 \<le> indexOf xs x \<and> indexOf xs x < int (length xs)"
  by (induction xs) (auto simp: Let_def)

lemma splice_js_minus_one: "splice_js xs (-1) 1 = butlast xs"
  by (cases xs rule: rev_cases) (auto simp: splice_js_def Let_def)

lemma splice_js_zero_one: "splice_js xs 0 1 = tl xs"
  by (cases xs) (auto simp: splice_js_def Let_def)

lemma splice_js_take_drop: "\<exists>a b. a \<le> b \<and> splice_js xs s c = take a xs @ drop b xs"
  unfolding splice_js_def Let_def
  by (rule exI[of _ "nat (if s < 0 then max (int (length xs) + s) 0 else min s (int (length xs)))"],
      rule exI) (rule conjI[OF _ refl], auto)

lemma distinct_map_splice_js:
  assumes "distinct (map f xs)"
  shows "distinct (map f (splice_js xs s c))"
proof -
  obtain a b where ab: "a \<le> b" "splice_js xs s c = take a xs @ drop b xs"
    using splice_js_take_drop by blast
  have disj: "set (take a (map f xs)) \<inter> set (drop b (map f xs)) = {}"
    using assms ab(1) by (rule set_take_disj_set_drop_if_distinct)
  have eq: "map f (splice_js xs s c) = take a (map f xs) @ drop b (map f xs)"
    by (simp add: ab(2) take_map drop_map)
  show ?thesis
    unfolding eq using assms disj
    by (simp only: distinct_append distinct_take distinct_drop simp_thms)
qed

lemma find_Some_set: "find P xs = Some x \<Longrightarrow> x \<in> set xs \<and> P x"
  by (induction xs) (auto split: if_splits)

lemma set_save_doc: "set (save_doc key x xs) \<subseteq> insert x (set xs)"
  by (induction xs) auto

lemma set_remove_first: "set (remove_first P xs) \<subseteq> set xs"
  by (induction xs) auto

lemma find_save_doc:
  assumes "find (\<lambda>x. key x = i) xs = Some x" and "key x' = key x"
  shows "find (\<lambda>x. key x = i) (save_doc key x' xs) = Some x'"
proof -
  have k: "key x = i"
    using assms(1) by (auto dest: find_Some_set)
  show ?thesis
    using assms(1) unfolding assms(2) k
    by (induction xs) (auto simp: assms(2) k split: if_splits)
qed

lemma filter_remove_first_neg:
  "filter (\<lambda>x. \<not> P x) (remove_first P xs) = filter (\<lambda>x. \<not> P x) xs"
  by (induction xs) auto

lemma remove_first_distinct:
  "distinct (map key xs) \<Longrightarrow> remove_first (\<lambda>x. key x = i) xs = filter (\<lambda>x. key x \<noteq> i) xs"
proof (induction xs)
  case Nil
  then show ?case by simp
next
  case (Cons x xs)
  show ?case
  proof (cases "key x = i")
    case True
    then have "\<forall>y \<in> set xs. key y \<noteq> i"
      using Cons.prems by (auto simp: image_iff)
    then have "filter (\<lambda>x. key x \<noteq> i) xs = xs"
      by (simp add: filter_id_conv)
    then show ?thesis using True by simp
  next
    case False
    then show ?thesis using Cons by simp
  qed
qed

lemma findById_Some_set:
  "findById valid_oid key i xs = Inr (Some x) \<Longrightarrow> x \<in> set xs \<and> key x = i"
  by (auto simp: findById_def dest: find_Some_set split: if_splits)

section \<open>The like invariant is kept by every post route\<close>

lemma likes_distinct_save:
  "likes_distinct ps \<Longrightarrow> distinct (map like_user (likes p))
     \<Longrightarrow> likes_distinct (save_doc post_id p ps)"
  using set_save_doc[of post_id p ps] by (auto simp: likes_distinct_def)

lemma likes_distinct_remove: "likes_distinct ps \<Longrightarrow> likes_distinct (remove_first P ps)"
  using set_remove_first[of P ps] by (auto simp: likes_distinct_def)

lemma likes_distinct_find:
  "likes_distinct ps \<Longrightarrow> findById valid_oid post_id i ps = Inr (Some p)
     \<Longrightarrow> distinct (map like_user (likes p))"
  by (auto simp: likes_distinct_def dest: findById_Some_set)

lemma create_post_inv:
  "likes_distinct (posts d)
     \<Longrightarrow> likes_distinct (posts (snd (create_post valid_oid new_id text user_id d)))"
  by (auto simp: create_post_def Let_def likes_distinct_def split: sum.splits option.splits)

lemma delete_post_inv:
  "likes_distinct (posts d) \<Longrightarrow> likes_distinct (posts (snd (delete_post valid_oid i user_id d)))"
  by (auto simp: delete_post_def likes_distinct_remove split: sum.splits option.splits)

lemma put_like_inv:
  assumes "likes_distinct (posts d)"
  shows "likes_distinct (posts (snd (put_like valid_oid i user_id d)))"
proof (cases "findById valid_oid post_id i (posts d)")
  case (Inl e)
  then show ?thesis using assms by (simp add: put_like_def)
next
  case (Inr r)
  show ?thesis
  proof (cases r)
    case None
    then show ?thesis using assms Inr by (simp add: put_like_def)
  next
    case (Some p)
    have dp: "distinct (map like_user (likes p))"
      using assms Inr Some by (auto dest: likes_distinct_find)
    show ?thesis
    proof (cases "\<exists>l \<in> set (likes p). like_user l = user_id")
      case True
      then show ?thesis using assms Inr Some by (simp add: put_like_def filter_empty_conv)
    next
      case False
      then have "distinct (map like_user (\<lparr>like_user = user_id\<rparr> # likes p))"
        using dp by auto
      then have "likes_distinct
                   (save_doc post_id (p\<lparr>likes := \<lparr>like_user = user_id\<rparr> # likes p\<rparr>) (posts d))"
        using assms by (intro likes_distinct_save) simp_all
      then show ?thesis
        using False Inr Some by (simp add: put_like_def filter_empty_conv Let_def)
    qed
  qed
qed

lemma put_unlike_inv:
  assumes "likes_distinct (posts d)"
  shows "likes_distinct (posts (snd (put_unlike valid_oid i user_id d)))"
proof (cases "findById valid_oid post_id i (posts d)")
  case (Inl e)
  then show ?thesis using assms by (simp add: put_unlike_def)
next
  case (Inr r)
  show ?thesis
  proof (cases r)
    case None
    then show ?thesis using assms Inr by (simp add: put_unlike_def)
  next
    case (Some p)
    have dp: "distinct (map like_user (likes p))"
      using assms Inr Some by (auto dest: likes_distinct_find)
    have "likes_distinct (save_doc post_id (p\<lparr>likes := splice_js (likes p) k 1\<rparr>) (posts d))"
      for k
      using assms dp by (intro likes_distinct_save) (simp_all add: distinct_map_splice_js)
    then show ?thesis using assms Inr Some by (simp add: put_unlike_def Let_def)
  qed
qed

lemma post_comment_inv:
  assumes "likes_distinct (posts d)"
  shows "likes_distinct (posts (snd (post_comment valid_oid new_id text i user_id d)))"
proof -
  have "likes_distinct (save_doc post_id (p\<lparr>comments := c # comments p\<rparr>) (posts d))"
    if "findById valid_oid post_id i (posts d) = Inr (Some p)" for p c
    using assms that by (intro likes_distinct_save) (auto dest: likes_distinct_find)
  then show ?thesis
    using assms by (auto simp: post_comment_def Let_def split: sum.splits option.splits)
qed

lemma delete_comment_inv:
  assumes "likes_distinct (posts d)"
  shows "likes_distinct (posts (snd (delete_comment valid_oid i c user_id d)))"
proof -
  have "likes_distinct (save_doc post_id (p\<lparr>comments := cs\<rparr>) (posts d))"
    if "findById valid_oid post_id i (posts d) = Inr (Some p)" for p cs
    using assms that by (intro likes_distinct_save) (auto dest: likes_distinct_find)
  then show ?thesis
    using assms by (auto simp: delete_comment_def Let_def split: sum.splits option.splits)
qed

lemma reachable_likes_distinct: "reachable d \<Longrightarrow> likes_distinct (posts d)"
proof (induction rule: reachable.induct)
  case (reach_init d)
  then show ?case by (simp add: likes_distinct_def)
qed (simp_all add: create_post_inv delete_post_inv put_like_inv put_unlike_inv
      post_comment_inv delete_comment_inv)

section \<open>The profile fields object, property by property\<close>

lemma update_fresh: "k \<notin> fst ` set obj \<Longrightarrow> AList.update k v obj = obj @ [(k, v)]"
  by (induction obj) auto

lemma assign_if_fresh:
  "k \<notin> fst ` set obj \<Longrightarrow> assign_if k (body k) obj = obj @ field_entry body k"
  by (auto simp: assign_if_def field_entry_def update_fresh split: option.splits)

lemma keys_field_entry:
  "k' \<in> fst ` set (field_entry body k) \<longleftrightarrow> k' = k \<and> truthy_value (body k)"
  by (cases "body k") (auto simp: field_entry_def truthy_value_def)

lemma keys_skills_entry: "k' \<in> fst ` set (skills_entry body) \<Longrightarrow> k' = ''skills''"
  by (auto simp: skills_entry_def split: option.splits jsvalue.splits if_splits)

lemma build_social_eq: "build_social body = canonical_social body"
  by (simp add: build_social_def canonical_social_def social_fields_def Let_def assign_if_fresh
      keys_field_entry image_Un)

lemma assign_skills_usable:
  assumes "skills_usable (body ''skills'')" and "''skills'' \<notin> fst ` set obj"
  shows "assign_skills (body ''skills'') obj = Inr (obj @ skills_entry body)"
proof (cases "body ''skills''")
  case None
  then show ?thesis by (simp add: assign_skills_def skills_entry_def)
next
  case (Some v)
  then show ?thesis
    using assms
    by (cases v) (simp_all add: assign_skills_def skills_entry_def skills_usable_def update_fresh)
qed

lemma assign_skills_throws:
  assumes "\<not> skills_usable (body ''skills'')"
  shows "assign_skills (body ''skills'') obj = Inl TypeError"
proof (cases "body ''skills''")
  case None
  then show ?thesis using assms by (simp add: skills_usable_def)
next
  case (Some v)
  then show ?thesis
    using assms by (cases v) (simp_all add: assign_skills_def skills_usable_def)
qed

lemma six_fields:
  "assign_if ''githubusername'' (body ''githubusername'')
     (assign_if ''status'' (body ''status'')
       (assign_if ''bio'' (body ''bio'')
         (assign_if ''location'' (body ''location'')
           (assign_if ''website'' (body ''website'')
             (assign_if ''company'' (body ''company'')
               (AList.update ''user'' (Id user_id) [])))))) =
   [(''user'', Id user_id)] @ concat (map (field_entry body) text_fields)"
  by (simp add: text_fields_def assign_if_fresh keys_field_entry image_Un)

lemma build_profileFields_usable:
  assumes "skills_usable (body ''skills'')"
  shows "build_profileFields user_id body = Inr (canonical_fields user_id body)"
proof -
  let ?six = "[(''user'', Id user_id)] @ concat (map (field_entry body) text_fields)"
  have k1: "''skills'' \<notin> fst ` set ?six"
    by (simp add: text_fields_def image_Un keys_field_entry)
  have "''social'' \<notin> fst ` set (skills_entry body)"
    using keys_skills_entry[of "''social''" body] by auto
  then have k2: "''social'' \<notin> fst ` set (?six @ skills_entry body)"
    by (simp add: text_fields_def image_Un keys_field_entry)
  have "build_profileFields user_id body =
          (case assign_skills (body ''skills'') ?six of
             Inl err \<Rightarrow> Inl err
           | Inr profileFields \<Rightarrow>
               Inr (AList.update ''social'' (Obj (build_social body)) profileFields))"
    unfolding build_profileFields_def Let_def six_fields ..
  also have "\<dots> = Inr (AList.update ''social'' (Obj (build_social body)) (?six @ skills_entry body))"
    by (simp only: assign_skills_usable[where body = body, OF assms k1] sum.case)
  also have "\<dots> = Inr ((?six @ skills_entry body) @ [(''social'', Obj (canonical_social body))])"
    by (simp only: update_fresh[OF k2] build_social_eq)
  finally show ?thesis
    by (simp add: canonical_fields_def)
qed

lemma build_profileFields_throws:
  assumes "\<not> skills_usable (body ''skills'')"
  shows "build_profileFields user_id body = Inl TypeError"
  unfolding build_profileFields_def Let_def
  by (simp only: assign_skills_throws[where body = body, OF assms] sum.case)

lemma map_fst_field_entry:
  "map fst (field_entry body k) = (if truthy_value (body k) then [k] else [])"
  by (auto simp: field_entry_def truthy_value_def split: option.splits)

lemma map_fst_entries:
  "map fst (concat (map (field_entry body) ks)) = filter (\<lambda>k. truthy_value (body k)) ks"
  by (induction ks) (simp_all add: map_fst_field_entry)

lemma map_fst_skills_entry:
  assumes "skills_usable (body ''skills'')"
  shows "map fst (skills_entry body) = (if truthy_value (body ''skills'') then [''skills''] else [])"
proof (cases "body ''skills''")
  case None
  then show ?thesis by (simp add: skills_entry_def truthy_value_def)
next
  case (Some v)
  then show ?thesis
    using assms
    by (cases v) (simp_all add: skills_entry_def truthy_value_def skills_usable_def)
qed

text \<open>The three outcomes of the upsert.\<close>

lemma post_profile_invalid:
  "validate_profile isEmpty body \<noteq> [] \<Longrightarrow>
   post_profile isEmpty body user_id d = Responded (400, Errors (validate_profile isEmpty body))"
  by (simp add: post_profile_def Let_def)

lemma post_profile_throws:
  "validate_profile isEmpty body = [] \<Longrightarrow> \<not> skills_usable (body ''skills'') \<Longrightarrow>
   post_profile isEmpty body user_id d = Uncaught TypeError"
  by (simp add: post_profile_def Let_def build_profileFields_throws)

lemma post_profile_issues:
  "validate_profile isEmpty body = [] \<Longrightarrow> skills_usable (body ''skills'') \<Longrightarrow>
   post_profile isEmpty body user_id d =
     Issued (case findOne_profile user_id (profiles d) of
               Some profile \<Rightarrow> FindOneAndUpdate user_id (canonical_fields user_id body)
             | None \<Rightarrow> SaveNew (canonical_fields user_id body))"
  by (simp add: post_profile_def Let_def build_profileFields_usable split: option.splits)

text \<open>A skills array passes the sample validators and makes the handler throw.\<close>

lemma skills_array_throws:
  "validate_profile sample_isEmpty body_3 = [] \<and>
   post_profile sample_isEmpty body_3 ''u1'' db_1 = Uncaught TypeError"
  by (simp add: post_profile_def validate_profile_def sample_isEmpty_def body_3_def Let_def
      build_profileFields_def assign_if_def assign_skills_def lit_def)

section \<open>The sample token library meets the contract\<close>

lemma unbits_bits: "unbits (bits n) = n"
proof (induction n rule: bits.induct)
  case (1 n)
  then show ?case
    by (subst bits.simps) (auto elim: oddE)
qed

lemma bits_no_dot: "CHR ''.'' \<notin> set (bits n)"
proof (induction n rule: bits.induct)
  case (1 n)
  then show ?case
    by (subst bits.simps) auto
qed

lemma field_of_bits: "field_of (bits n @ CHR ''.'' # r) = bits n"
proof -
  have "takeWhile (\<lambda>c. c \<noteq> CHR ''.'') (bits n @ CHR ''.'' # r) =
          bits n @ takeWhile (\<lambda>c. c \<noteq> CHR ''.'') (CHR ''.'' # r)"
    using bits_no_dot[of n] by (intro takeWhile_append2) auto
  then show ?thesis by (simp add: field_of_def)
qed

lemma after_field_bits: "after_field (bits n @ CHR ''.'' # r) = r"
proof -
  have "dropWhile (\<lambda>c. c \<noteq> CHR ''.'') (bits n @ CHR ''.'' # r) =
          dropWhile (\<lambda>c. c \<noteq> CHR ''.'') (CHR ''.'' # r)"
    using bits_no_dot[of n] by (intro dropWhile_append2) auto
  then show ?thesis by (simp add: after_field_def)
qed

lemma sample_jwt_contract: "jwt_contract sample_sign sample_verify"
  by (auto simp: jwt_contract_def sample_sign_def sample_verify_def field_of_bits
      after_field_bits unbits_bits Let_def)

section \<open>Splitting and trimming\<close>

lemma split_not_empty: "split sep s \<noteq> []"
  by (induction s) (auto split: list.splits)

lemma split_pieces: "w \<in> set (split sep s) \<Longrightarrow> sep \<notin> set w"
  by (induction s arbitrary: w) (auto split: list.splits if_splits)

lemma split_length: "length (split sep s) = Suc (count_list s sep)"
  by (induction s) (auto split: list.splits)

lemma split_no_sep: "sep \<notin> set s \<Longrightarrow> split sep s = [s]"
  by (induction s) (auto split: list.splits)

lemma split_at_sep: "sep \<notin> set w \<Longrightarrow> split sep (w @ sep # s) = w # split sep s"
  by (induction w) (auto split: list.splits)

lemma trim_inside:
  "\<exists>a b. s = a @ trim s @ b \<and> (\<forall>c \<in> set a. is_space c) \<and> (\<forall>c \<in> set b. is_space c)"
proof -
  define t where "t = dropWhile is_space s"
  have s: "s = takeWhile is_space s @ t"
    by (simp add: t_def)
  have "rev (dropWhile is_space (rev t)) @ rev (takeWhile is_space (rev t)) =
          rev (takeWhile is_space (rev t) @ dropWhile is_space (rev t))"
    by (simp only: rev_append)
  also have "\<dots> = rev (rev t)"
    by (simp only: takeWhile_dropWhile_id)
  finally have t: "t = trim s @ rev (takeWhile is_space (rev t))"
    by (simp add: trim_def t_def)
  have "s = takeWhile is_space s @ trim s @ rev (takeWhile is_space (rev t))"
    using s t by simp
  moreover have "\<forall>c \<in> set (takeWhile is_space s). is_space c"
    by (auto dest: set_takeWhileD)
  moreover have "\<forall>c \<in> set (rev (takeWhile is_space (rev t))). is_space c"
    by (auto dest: set_takeWhileD)
  ultimately show ?thesis by blast
qed

lemma trim_ends:
  assumes "trim s \<noteq> []"
  shows "\<not> is_space (hd (trim s)) \<and> \<not> is_space (last (trim s))"
proof -
  define t where "t = dropWhile is_space s"
  define x where "x = dropWhile is_space (rev t)"
  have tr: "trim s = rev x"
    by (simp add: trim_def t_def x_def)
  have x: "x \<noteq> []"
    using assms tr by simp
  then have "\<not> is_space (hd x)"
    unfolding x_def by (rule hd_dropWhile)
  then have l: "\<not> is_space (last (trim s))"
    using x by (simp add: tr last_rev)
  have "rev t = takeWhile is_space (rev t) @ x"
    by (simp add: x_def)
  then have "last (rev t) = last x"
    using x by (metis last_appendR)
  moreover have t: "t \<noteq> []"
    using x by (auto simp: x_def)
  ultimately have "last x = hd t"
    by (simp add: last_rev)
  moreover have "\<not> is_space (hd t)"
    using t unfolding t_def by (rule hd_dropWhile)
  ultimately have "\<not> is_space (hd (trim s))"
    using x by (simp add: tr hd_rev)
  with l show ?thesis by simp
qed

section \<open>What the removals do in general\<close>

text \<open>
  An identifier that is absent from a list of entries removes the last entry of the list.
\<close>

lemma splice_js_absent:
  assumes "x \<notin> set (map key xs)"
  shows "splice_js xs (indexOf (map key xs) x) 1 = butlast xs"
proof -
  have "indexOf (map key xs) x = -1"
    using assms by (rule indexOf_absent)
  then show ?thesis
    by (simp add: splice_js_minus_one)
qed

text \<open>An unlike that passes the check removes the first like of the list.\<close>

lemma str_indexOf_self: "str_indexOf s s = 0"
  by (cases s) auto

lemma unlike_start_index:
  assumes "u \<in> like_user ` set ls"
  shows "ToIntegerOrInfinity (array_ToNumber (map (\<lambda>like. str_indexOf (like_user like) u) ls)) = 0"
proof (cases ls)
  case Nil
  then show ?thesis by (simp add: ToIntegerOrInfinity_def)
next
  case (Cons l ls')
  show ?thesis
  proof (cases ls')
    case Nil
    then have "like_user l = u"
      using assms Cons by simp
    then show ?thesis
      using Cons Nil by (simp add: ToIntegerOrInfinity_def str_indexOf_self)
  next
    case (Cons l' ls'')
    then show ?thesis
      using \<open>ls = l # ls'\<close> by (simp add: ToIntegerOrInfinity_def)
  qed
qed

lemma put_unlike_liked:
  assumes "findById valid_oid post_id id_param (posts d) = Inr (Some post)"
    and "user_id \<in> like_user ` set (likes post)"
  shows "put_unlike valid_oid id_param user_id d =
           ((200, Doc (tl (likes post))),
            d\<lparr>posts := save_doc post_id (post\<lparr>likes := tl (likes post)\<rparr>) (posts d)\<rparr>)"
proof -
  have "filter (\<lambda>like. like_user like = user_id) (likes post) \<noteq> []"
    using assms(2) by (auto simp: filter_empty_conv)
  then show ?thesis
    using assms by (simp add: put_unlike_def Let_def unlike_start_index splice_js_zero_one)
qed

lemma put_unlike_not_liked:
  assumes "findById valid_oid post_id id_param (posts d) = Inr (Some post)"
    and "user_id \<notin> like_user ` set (likes post)"
  shows "put_unlike valid_oid id_param user_id d = ((400, Msg ''Post has not yet been liked''), d)"
proof -
  have "filter (\<lambda>like. like_user like = user_id) (likes post) = []"
    using assms(2) by (auto simp: filter_empty_conv)
  then show ?thesis
    using assms by (simp add: put_unlike_def)
qed

section \<open>Removing profile entries\<close>

text \<open>
  C1. Removing an experience or education entry by an identifier that does not occur in
  the list should leave the list as it is. The routes feed the result of \<open>indexOf\<close>
  to \<open>splice\<close> unchecked: for an absent identifier this is \<open>-1\<close>, and \<open>splice(-1, 1)\<close>
  removes the last entry. Here the profile of \<open>u1\<close> holds the entries \<open>e1, e2\<close> and
  \<open>s1, s2\<close>; removing the absent \<open>e3\<close> (or \<open>s3\<close>) succeeds with status 200 and persists
  the list without \<open>e2\<close> (or \<open>s2\<close>).
\<close>

theorem remove_absent_entry_drops_last:
  "''e3'' \<notin> exp_id ` set (experience profile_1) \<and>
   delete_experience ''e3'' ''u1'' db_1 =
     ((200, Doc (profile_1\<lparr>experience := [exp_a]\<rparr>)),
      db_1\<lparr>profiles := [profile_1\<lparr>experience := [exp_a]\<rparr>]\<rparr>) \<and>
   ''s3'' \<notin> edu_id ` set (education profile_1) \<and>
   delete_education ''s3'' ''u1'' db_1 =
     ((200, Doc (profile_1\<lparr>education := [edu_a]\<rparr>)),
      db_1\<lparr>profiles := [profile_1\<lparr>education := [edu_a]\<rparr>]\<rparr>)"
  by (simp add: delete_experience_def delete_education_def findOne_profile_def db_1_def
      profile_1_def exp_a_def exp_b_def edu_a_def edu_b_def splice_js_def Let_def)

section \<open>Likes\<close>

text \<open>
  C2. Unlike should remove the like of the authenticated identity and no other. The
  route hands \<open>splice\<close> the array of per-like string positions instead of one index;
  with more than one like that array converts to \<open>0\<close>, so the first like of the list
  goes, whoever gave it. Here the post holds the likes of \<open>u2\<close> and \<open>u1\<close>, in this
  order; the unlike of \<open>u1\<close> succeeds, removes the like of \<open>u2\<close> and keeps the one
  of \<open>u1\<close>.
\<close>

theorem unlike_removes_first_like:
  "likes post_1 = [\<lparr>like_user = ''u2''\<rparr>, \<lparr>like_user = ''u1''\<rparr>] \<and>
   put_unlike (\<lambda>i. True) ''p1'' ''u1'' db_1 =
     ((200, Doc [\<lparr>like_user = ''u1''\<rparr>]),
      db_1\<lparr>posts := [post_1\<lparr>likes := [\<lparr>like_user = ''u1''\<rparr>]\<rparr>]\<rparr>)"
  by (simp add: put_unlike_def findById_def db_1_def post_1_def splice_js_def Let_def
      ToIntegerOrInfinity_def)

text \<open>
  C3. When the identity already appears in the like list of the post, a like request is
  answered with status 400, "Post already liked", and nothing is written, so the like
  list keeps its length. In every state of the post collection that the routes can reach,
  each post has at most one like per identity.
\<close>

theorem like_at_most_once:
  "(findById valid_oid post_id id_param (posts d) = Inr (Some post) \<longrightarrow>
      user_id \<in> like_user ` set (likes post) \<longrightarrow>
      put_like valid_oid id_param user_id d = ((400, Msg ''Post already liked''), d)) \<and>
   (reachable d \<longrightarrow> (\<forall>p \<in> set (posts d). distinct (map like_user (likes p))))"
proof (intro conjI impI)
  assume "findById valid_oid post_id id_param (posts d) = Inr (Some post)"
    and "user_id \<in> like_user ` set (likes post)"
  then show "put_like valid_oid id_param user_id d = ((400, Msg ''Post already liked''), d)"
    by (auto simp: put_like_def filter_empty_conv)
next
  assume "reachable d"
  then show "\<forall>p \<in> set (posts d). distinct (map like_user (likes p))"
    using reachable_likes_distinct by (simp add: likes_distinct_def)
qed

text \<open>
  The state \<open>db_1\<close> is reached by creating the post \<open>p1\<close> and liking it as \<open>u1\<close> and
  as \<open>u2\<close>; a second like of \<open>u2\<close> is refused there.
\<close>

theorem like_at_most_once_witness:
  "put_like (\<lambda>i. True) ''p1'' ''u2'' db_1 = ((400, Msg ''Post already liked''), db_1) \<and>
   reachable db_1 \<and> posts db_1 = [post_1] \<and> distinct (map like_user (likes post_1))"
proof -
  have f: "findById (\<lambda>i. True) post_id ''p1'' (posts db_1) = Inr (Some post_1)"
    by (simp add: findById_def db_1_def post_1_def)
  have m: "''u2'' \<in> like_user ` set (likes post_1)"
    by (simp add: post_1_def)
  have r0: "reachable db_0"
    by (rule reach_init) (simp add: db_0_def)
  have e: "db_1 =
      snd (put_like (\<lambda>i. True) ''p1'' ''u2''
        (snd (put_like (\<lambda>i. True) ''p1'' ''u1''
          (snd (create_post (\<lambda>i. True) ''p1'' (Some ''hello'') ''u1'' db_0)))))"
    by (simp add: db_1_def db_0_def post_1_def user_1_def user_2_def create_post_def
        put_like_def findById_def validate_text_def truthy_def Let_def)
  have r: "reachable db_1"
    unfolding e by (intro reach_like reach_create r0) (simp add: db_0_def)
  have p: "posts db_1 = [post_1]"
    by (simp add: db_1_def)
  from like_at_most_once[of "\<lambda>i. True" "''p1''" db_1 post_1 "''u2''"] f m r
  have "put_like (\<lambda>i. True) ''p1'' ''u2'' db_1 = ((400, Msg ''Post already liked''), db_1)"
    and "\<forall>p \<in> set (posts db_1). distinct (map like_user (likes p))"
    by blast+
  with r p show ?thesis by simp
qed

text \<open>
  C10. A like or unlike request whose post identifier matches no stored post is answered
  with status 500, "Server Error", and writes nothing: if the identifier is no ObjectId
  the query throws, otherwise the lookup gives \<open>null\<close> and reading its likes throws, and
  the \<open>catch\<close> of both routes answers every error with 500. Neither route answers 404.
\<close>

theorem like_missing_post_is_server_error:
  assumes "find (\<lambda>p. post_id p = id_param) (posts d) = None"
  shows "put_like valid_oid id_param user_id d = ((500, Text ''Server Error''), d) \<and>
         put_unlike valid_oid id_param user_id d = ((500, Text ''Server Error''), d)"
  using assms by (simp add: put_like_def put_unlike_def findById_def server_error_def)

theorem like_missing_post_is_server_error_witness:
  "find (\<lambda>p. post_id p = ''p9'') (posts db_1) = None \<and>
   put_like (\<lambda>i. True) ''p9'' ''u1'' db_1 = ((500, Text ''Server Error''), db_1) \<and>
   put_unlike (\<lambda>i. True) ''p9'' ''u1'' db_1 = ((500, Text ''Server Error''), db_1) \<and>
   put_like (\<lambda>i. length i = 24) ''p9'' ''u1'' db_1 = ((500, Text ''Server Error''), db_1) \<and>
   put_unlike (\<lambda>i. length i = 24) ''p9'' ''u1'' db_1 = ((500, Text ''Server Error''), db_1)"
proof -
  have h: "find (\<lambda>p. post_id p = ''p9'') (posts db_1) = None"
    by (simp add: db_1_def post_1_def)
  from h like_missing_post_is_server_error[OF h, of "\<lambda>i. True" "''u1''"]
    like_missing_post_is_server_error[OF h, of "\<lambda>i. length i = 24" "''u1''"]
  show ?thesis by simp
qed

section \<open>Comments\<close>

text \<open>
  C7. For an existing post, deleting a comment by identifier is answered with status 404
  when no comment of the post has that identifier, and with status 401, "User not
  authorized", when the comment found belongs to another identity; in both cases nothing
  is written, so the comment stays. Otherwise the answer is the comment list without the
  comments of that identifier, the post is saved with that list, the deleted comment is
  gone and every comment with another identifier is kept.
\<close>

theorem delete_comment_cases:
  assumes "findById valid_oid post_id id_param (posts d) = Inr (Some post)"
  shows
    "(comment_id_param \<notin> comment_id ` set (comments post) \<longrightarrow>
        delete_comment valid_oid id_param comment_id_param user_id d =
          ((404, Msg ''Comment does not exist''), d)) \<and>
     (\<forall>c. find (\<lambda>c. comment_id c = comment_id_param) (comments post) = Some c \<longrightarrow>
        (comment_user c \<noteq> user_id \<longrightarrow>
           delete_comment valid_oid id_param comment_id_param user_id d =
             ((401, Msg ''User not authorized''), d)) \<and>
        (comment_user c = user_id \<longrightarrow>
           (let cs' = filter (\<lambda>c. comment_id c \<noteq> comment_id_param) (comments post);
                d' = snd (delete_comment valid_oid id_param comment_id_param user_id d)
            in fst (delete_comment valid_oid id_param comment_id_param user_id d) =
                 (200, Doc cs') \<and>
               d' = d\<lparr>posts := save_doc post_id (post\<lparr>comments := cs'\<rparr>) (posts d)\<rparr> \<and>
               findById valid_oid post_id id_param (posts d') =
                 Inr (Some (post\<lparr>comments := cs'\<rparr>)) \<and>
               c \<notin> set cs' \<and>
               (\<forall>c' \<in> set (comments post).
                  comment_id c' \<noteq> comment_id_param \<longrightarrow> c' \<in> set cs'))))"
proof (intro conjI allI impI)
  assume "comment_id_param \<notin> comment_id ` set (comments post)"
  then have "find (\<lambda>c. comment_id c = comment_id_param) (comments post) = None"
    by (auto simp: find_None_iff)
  then show "delete_comment valid_oid id_param comment_id_param user_id d =
          ((404, Msg ''Comment does not exist''), d)"
    using assms by (simp add: delete_comment_def)
next
  fix c
  assume "find (\<lambda>c. comment_id c = comment_id_param) (comments post) = Some c"
    and "comment_user c \<noteq> user_id"
  then show "delete_comment valid_oid id_param comment_id_param user_id d =
             ((401, Msg ''User not authorized''), d)"
    using assms by (simp add: delete_comment_def)
next
  fix c
  assume f: "find (\<lambda>c. comment_id c = comment_id_param) (comments post) = Some c"
    and u: "comment_user c = user_id"
  have v: "valid_oid id_param" and fp: "find (\<lambda>x. post_id x = id_param) (posts d) = Some post"
    using assms by (auto simp: findById_def split: if_splits)
  have cid: "comment_id c = comment_id_param"
    using f by (auto dest: find_Some_set)
  show "let cs' = filter (\<lambda>c. comment_id c \<noteq> comment_id_param) (comments post);
            d' = snd (delete_comment valid_oid id_param comment_id_param user_id d)
        in fst (delete_comment valid_oid id_param comment_id_param user_id d) =
             (200, Doc cs') \<and>
           d' = d\<lparr>posts := save_doc post_id (post\<lparr>comments := cs'\<rparr>) (posts d)\<rparr> \<and>
           findById valid_oid post_id id_param (posts d') =
             Inr (Some (post\<lparr>comments := cs'\<rparr>)) \<and>
           c \<notin> set cs' \<and>
           (\<forall>c' \<in> set (comments post).
              comment_id c' \<noteq> comment_id_param \<longrightarrow> c' \<in> set cs')"
    using assms f u v cid
      find_save_doc[OF fp, of "post\<lparr>comments :=
        filter (\<lambda>c. comment_id c \<noteq> comment_id_param) (comments post)\<rparr>"]
    by (simp add: delete_comment_def Let_def findById_def)
qed

text \<open>
  The post \<open>p2\<close> holds the comment \<open>c2\<close> of \<open>u2\<close> and the comment \<open>c1\<close> of \<open>u1\<close>.
\<close>

theorem delete_comment_cases_witness:
  "findById (\<lambda>i. True) post_id ''p2'' (posts db_2) = Inr (Some post_2) \<and>
   delete_comment (\<lambda>i. True) ''p2'' ''c9'' ''u1'' db_2 =
     ((404, Msg ''Comment does not exist''), db_2) \<and>
   delete_comment (\<lambda>i. True) ''p2'' ''c1'' ''u2'' db_2 =
     ((401, Msg ''User not authorized''), db_2) \<and>
   delete_comment (\<lambda>i. True) ''p2'' ''c1'' ''u1'' db_2 =
     ((200, Doc [comment_2]), db_2\<lparr>posts := [post_2\<lparr>comments := [comment_2]\<rparr>]\<rparr>)"
proof -
  have f: "findById (\<lambda>i. True) post_id ''p2'' (posts db_2) = Inr (Some post_2)"
    by (simp add: findById_def db_2_def post_2_def)
  have a: "''c9'' \<notin> comment_id ` set (comments post_2)"
    by (simp add: post_2_def comment_1_def comment_2_def)
  have c: "find (\<lambda>c. comment_id c = ''c1'') (comments post_2) = Some comment_1"
    by (simp add: post_2_def comment_1_def comment_2_def)
  have u: "comment_user comment_1 \<noteq> ''u2''" "comment_user comment_1 = ''u1''"
    by (simp_all add: comment_1_def)
  have s: "filter (\<lambda>c. comment_id c \<noteq> ''c1'') (comments post_2) = [comment_2]"
    by (simp add: post_2_def comment_1_def comment_2_def)
  have p: "save_doc post_id (post_2\<lparr>comments := [comment_2]\<rparr>) (posts db_2) =
             [post_2\<lparr>comments := [comment_2]\<rparr>]"
    by (simp add: db_2_def)
  have 1: "delete_comment (\<lambda>i. True) ''p2'' ''c9'' ''u1'' db_2 =
             ((404, Msg ''Comment does not exist''), db_2)"
    using delete_comment_cases[OF f, of "''c9''" "''u1''"] a by blast
  have 2: "delete_comment (\<lambda>i. True) ''p2'' ''c1'' ''u2'' db_2 =
             ((401, Msg ''User not authorized''), db_2)"
    using delete_comment_cases[OF f, of "''c1''" "''u2''"] c u(1) by blast
  have 3: "delete_comment (\<lambda>i. True) ''p2'' ''c1'' ''u1'' db_2 =
             ((200, Doc [comment_2]), db_2\<lparr>posts := [post_2\<lparr>comments := [comment_2]\<rparr>]\<rparr>)"
    using delete_comment_cases[OF f, of "''c1''" "''u1''"] c u(2)
    by (simp add: Let_def s p prod_eq_iff)
  from f 1 2 3 show ?thesis by blast
qed

section \<open>Deleting the account\<close>

text \<open>
  C9. Deleting the account answers status 200 and leaves every post as it is, the posts
  of the deleted user included. No user and no profile of another identity is touched.
  With unique user identifiers the user collection afterwards is the old one without the
  user of the identity, and with one profile per user the profile collection afterwards
  is the old one without the profile of the identity.
\<close>

theorem delete_account_frame:
  "fst (delete_account user_id d) = (200, Msg ''User deleted'') \<and>
   posts (snd (delete_account user_id d)) = posts d \<and>
   filter (\<lambda>u. u_id u \<noteq> user_id) (users (snd (delete_account user_id d))) =
     filter (\<lambda>u. u_id u \<noteq> user_id) (users d) \<and>
   filter (\<lambda>p. profile_user p \<noteq> user_id) (profiles (snd (delete_account user_id d))) =
     filter (\<lambda>p. profile_user p \<noteq> user_id) (profiles d) \<and>
   (distinct (map u_id (users d)) \<longrightarrow>
      users (snd (delete_account user_id d)) = filter (\<lambda>u. u_id u \<noteq> user_id) (users d)) \<and>
   (distinct (map profile_user (profiles d)) \<longrightarrow>
      profiles (snd (delete_account user_id d)) =
        filter (\<lambda>p. profile_user p \<noteq> user_id) (profiles d))"
  by (simp add: delete_account_def Let_def filter_remove_first_neg remove_first_distinct)

theorem delete_account_frame_witness:
  "distinct (map u_id (users db_1)) \<and> distinct (map profile_user (profiles db_1)) \<and>
   delete_account ''u1'' db_1 =
     ((200, Msg ''User deleted''), \<lparr>users = [user_2], profiles = [], posts = [post_1]\<rparr>) \<and>
   post_user post_1 = ''u1''"
proof -
  have du: "distinct (map u_id (users db_1))"
    by (simp add: db_1_def user_1_def user_2_def)
  have dp: "distinct (map profile_user (profiles db_1))"
    by (simp add: db_1_def)
  have fu: "filter (\<lambda>u. u_id u \<noteq> ''u1'') (users db_1) = [user_2]"
    by (simp add: db_1_def user_1_def user_2_def)
  have fp: "filter (\<lambda>p. profile_user p \<noteq> ''u1'') (profiles db_1) = []"
    by (simp add: db_1_def profile_1_def)
  have ps: "posts db_1 = [post_1]" "post_user post_1 = ''u1''"
    by (simp_all add: db_1_def post_1_def)
  from delete_account_frame[of "''u1''" db_1] du dp
  have "fst (delete_account ''u1'' db_1) = (200, Msg ''User deleted'')"
    and "posts (snd (delete_account ''u1'' db_1)) = [post_1]"
    and "users (snd (delete_account ''u1'' db_1)) = [user_2]"
    and "profiles (snd (delete_account ''u1'' db_1)) = []"
    by (simp_all add: fu fp ps)
  then have "delete_account ''u1'' db_1 =
     ((200, Msg ''User deleted''), \<lparr>users = [user_2], profiles = [], posts = [post_1]\<rparr>)"
    by (simp add: prod_eq_iff)
  with du dp ps show ?thesis by blast
qed

section \<open>Login and the auth middleware\<close>

text \<open>
  C6. Take two login requests that pass validation: for the first no user has the
  email, for the second a user has the email but the password does not match the stored
  hash. Both are answered with status 400 and the body
  \<open>{ errors: [{ msg: 'Invalid credentials' }] }\<close>: the two responses are equal.
\<close>

theorem login_failures_indistinguishable:
  assumes "validate_login isEmail email1 password1 = []"
    and "validate_login isEmail email2 password2 = []"
    and "find (\<lambda>u. Some (u_email u) = email1) (users d1) = None"
    and "find (\<lambda>u. Some (u_email u) = email2) (users d2) = Some user"
    and "\<not> compare (case password2 of None \<Rightarrow> [] | Some p \<Rightarrow> p) (u_password user)"
  shows "login isEmail compare sign jwtSecret now1 email1 password1 d1 =
           Some (400, Errors [''Invalid credentials'']) \<and>
         login isEmail compare sign jwtSecret now2 email2 password2 d2 =
           login isEmail compare sign jwtSecret now1 email1 password1 d1"
  using assms by (simp add: login_def)

theorem login_failures_indistinguishable_witness:
  "login sample_isEmail sample_compare sample_sign ''secret'' 1000
     (Some ''carol@example.org'') (Some ''pw1'') db_1 =
     Some (400, Errors [''Invalid credentials'']) \<and>
   login sample_isEmail sample_compare sample_sign ''secret'' 2000
     (Some ''ann@example.org'') (Some ''guess'') db_1 =
     Some (400, Errors [''Invalid credentials''])"
proof -
  have v1: "validate_login sample_isEmail (Some ''carol@example.org'') (Some ''pw1'') = []"
    by (simp add: validate_login_def sample_isEmail_def)
  have v2: "validate_login sample_isEmail (Some ''ann@example.org'') (Some ''guess'') = []"
    by (simp add: validate_login_def sample_isEmail_def)
  have f1: "find (\<lambda>u. Some (u_email u) = Some ''carol@example.org'') (users db_1) = None"
    by (simp add: db_1_def user_1_def user_2_def)
  have f2: "find (\<lambda>u. Some (u_email u) = Some ''ann@example.org'') (users db_1) = Some user_1"
    by (simp add: db_1_def user_1_def user_2_def)
  have c: "\<not> sample_compare (case Some ''guess'' of None \<Rightarrow> [] | Some p \<Rightarrow> p) (u_password user_1)"
    by (simp add: sample_compare_def user_1_def)
  from login_failures_indistinguishable[where compare = sample_compare and sign = sample_sign
      and jwtSecret = "''secret''" and ?now1.0 = 1000 and ?now2.0 = 2000, OF v1 v2 f1 f2 c]
  show ?thesis by simp
qed

text \<open>
  C4. A request whose token header is missing or empty is answered by the auth
  middleware with status 401, "No token, authorisation denied", and no token is handed
  to the verification. A request with a token that the verification rejects is answered
  with status 401, "Token is not valid". In both cases the handler of a private route
  does not run and the store is the one before the request.
\<close>

theorem auth_guard_rejections:
  "((token = None \<or> token = Some []) \<longrightarrow>
      auth verify jwtSecret now token =
        (Respond (401, Msg ''No token, authorisation denied''), []) \<and>
      private_route verify jwtSecret now handler token d =
        (((401, Msg ''No token, authorisation denied''), d), [])) \<and>
   (token = Some t \<and> t \<noteq> [] \<and> verify t jwtSecret now = None \<longrightarrow>
      auth verify jwtSecret now token = (Respond (401, Msg ''Token is not valid''), [t]) \<and>
      private_route verify jwtSecret now handler token d =
        (((401, Msg ''Token is not valid''), d), [t]))"
  by (auto simp: auth_def private_route_def truthy_def)

theorem auth_guard_rejections_witness:
  "private_route sample_verify ''secret'' 0 (put_like (\<lambda>i. True) ''p1'') None db_1 =
     (((401, Msg ''No token, authorisation denied''), db_1), []) \<and>
   private_route sample_verify ''secret'' 0 (put_like (\<lambda>i. True) ''p1'') (Some ''abc'') db_1 =
     (((401, Msg ''Token is not valid''), db_1), [''abc''])"
proof -
  have v: "sample_verify ''abc'' ''secret'' 0 = None"
    by (simp add: sample_verify_def field_of_def after_field_def Let_def)
  have 1: "private_route sample_verify ''secret'' 0 (put_like (\<lambda>i. True) ''p1'') None db_1 =
     (((401, Msg ''No token, authorisation denied''), db_1), [])"
    using auth_guard_rejections[where token = None] by blast
  have 2: "private_route sample_verify ''secret'' 0 (put_like (\<lambda>i. True) ''p1'')
             (Some ''abc'') db_1 = (((401, Msg ''Token is not valid''), db_1), [''abc''])"
    using auth_guard_rejections[where token = "Some ''abc''" and t = "''abc''"
        and verify = sample_verify and jwtSecret = "''secret''" and now = 0] v
    by blast
  from 1 2 show ?thesis by blast
qed

text \<open>
  C5. Let the token library meet its contract, and let a login pass validation, find the
  user and match the password, with the signing giving a token. Then the login answers
  status 200 with that token; the expiry asked for is 360000 seconds, which is 100 hours;
  and the auth middleware, given the token with the same secret, calls \<open>next()\<close> with
  the identity of that user as long as the clock is before the time of issuance plus 100
  hours, and answers 401, "Token is not valid", from then on.
\<close>

theorem issued_token_verifies:
  assumes "jwt_contract sign verify"
    and "validate_login isEmail email password = []"
    and "find (\<lambda>u. Some (u_email u) = email) (users d) = Some user"
    and "compare (case password of None \<Rightarrow> [] | Some p \<Rightarrow> p) (u_password user)"
    and "sign \<lparr>payload_user_id = u_id user\<rparr> jwtSecret expiresIn iat = Signed tok"
  shows "login isEmail compare sign jwtSecret iat email password d = Some (200, Doc tok) \<and>
         expiresIn = 100 * 3600 \<and>
         auth verify jwtSecret now (Some tok) =
           (if now < iat + 100 * 3600 then (Next \<lparr>payload_user_id = u_id user\<rparr>, [tok])
            else (Respond (401, Msg ''Token is not valid''), [tok]))"
proof -
  have c: "tok \<noteq> []"
    "verify tok jwtSecret now =
       (if now < iat + expiresIn then Some \<lparr>payload_user_id = u_id user\<rparr> else None)"
    using assms(1,5) unfolding jwt_contract_def by blast+
  have e: "expiresIn = 100 * 3600"
    by (simp add: expiresIn_def)
  have l: "login isEmail compare sign jwtSecret iat email password d = Some (200, Doc tok)"
    using assms by (simp add: login_def)
  have a: "auth verify jwtSecret now (Some tok) =
           (if now < iat + 100 * 3600 then (Next \<lparr>payload_user_id = u_id user\<rparr>, [tok])
            else (Respond (401, Msg ''Token is not valid''), [tok]))"
    using c e by (simp add: auth_def truthy_def)
  from l e a show ?thesis by blast
qed

text \<open>
  With the sample library: \<open>u1\<close> logs in at second 1000; the token is accepted at second
  360999 and refused at second 361000.
\<close>

theorem issued_token_verifies_witness:
  "jwt_contract sample_sign sample_verify \<and>
   login sample_isEmail sample_compare sample_sign ''secret'' 1000
     (Some ''ann@example.org'') (Some ''pw1'') db_1 =
     Some (200, Doc ''0001010001000001101.01.u1secret'') \<and>
   (auth sample_verify ''secret'' 360999 (Some ''0001010001000001101.01.u1secret'')
      :: unit guard \<times> string list) =
     (Next \<lparr>payload_user_id = ''u1''\<rparr>, [''0001010001000001101.01.u1secret'']) \<and>
   (auth sample_verify ''secret'' 361000 (Some ''0001010001000001101.01.u1secret'')
      :: unit guard \<times> string list) =
     (Respond (401, Msg ''Token is not valid''), [''0001010001000001101.01.u1secret''])"
proof -
  have v: "validate_login sample_isEmail (Some ''ann@example.org'') (Some ''pw1'') = []"
    by (simp add: validate_login_def sample_isEmail_def)
  have f: "find (\<lambda>u. Some (u_email u) = Some ''ann@example.org'') (users db_1) = Some user_1"
    by (simp add: db_1_def user_1_def user_2_def)
  have c: "sample_compare (case Some ''pw1'' of None \<Rightarrow> [] | Some p \<Rightarrow> p) (u_password user_1)"
    by (simp add: sample_compare_def user_1_def)
  have s: "sample_sign \<lparr>payload_user_id = u_id user_1\<rparr> ''secret'' expiresIn 1000 =
             Signed ''0001010001000001101.01.u1secret''"
    by (simp add: sample_sign_def expiresIn_def user_1_def bits.simps)
  have i: "u_id user_1 = ''u1''"
    by (simp add: user_1_def)
  have 1: "login sample_isEmail sample_compare sample_sign ''secret'' 1000
             (Some ''ann@example.org'') (Some ''pw1'') db_1 =
             Some (200, Doc ''0001010001000001101.01.u1secret'') \<and>
           expiresIn = 100 * 3600 \<and>
           (auth sample_verify ''secret'' 360999 (Some ''0001010001000001101.01.u1secret'')
              :: unit guard \<times> string list) =
             (if (360999::nat) < 1000 + 100 * 3600
              then (Next \<lparr>payload_user_id = u_id user_1\<rparr>, [''0001010001000001101.01.u1secret''])
              else (Respond (401, Msg ''Token is not valid''),
                    [''0001010001000001101.01.u1secret'']))"
    by (rule issued_token_verifies[where compare = sample_compare,
          OF sample_jwt_contract v f c s])
  have 2: "login sample_isEmail sample_compare sample_sign ''secret'' 1000
             (Some ''ann@example.org'') (Some ''pw1'') db_1 =
             Some (200, Doc ''0001010001000001101.01.u1secret'') \<and>
           expiresIn = 100 * 3600 \<and>
           (auth sample_verify ''secret'' 361000 (Some ''0001010001000001101.01.u1secret'')
              :: unit guard \<times> string list) =
             (if (361000::nat) < 1000 + 100 * 3600
              then (Next \<lparr>payload_user_id = u_id user_1\<rparr>, [''0001010001000001101.01.u1secret''])
              else (Respond (401, Msg ''Token is not valid''),
                    [''0001010001000001101.01.u1secret'']))"
    by (rule issued_token_verifies[where compare = sample_compare,
          OF sample_jwt_contract v f c s])
  from 1 2 sample_jwt_contract show ?thesis by (simp add: i)
qed

section \<open>The profile fields written by the upsert\<close>

text \<open>
  C8, as the code has it. The upsert issues a write exactly when the request passes the
  validators and its skills are undefined, falsy or a string. The object written then
  holds, in this order: the user identity; each of company, website, location, bio,
  status and githubusername whose value in the request is truthy, with that value; the
  skills, when they are a non-empty string, split at the commas with every piece trimmed;
  and a social object, always, with each of youtube, twitter, facebook, linkedin and
  instagram whose value is truthy. A field that the request omits, or carries with a
  falsy value such as the empty string, is not in the object.
\<close>

theorem profile_fields_written:
  "(post_profile isEmpty body user_id d = Issued w \<longrightarrow>
      validate_profile isEmpty body = [] \<and> skills_usable (body ''skills'') \<and>
      written_fields w = canonical_fields user_id body) \<and>
   (validate_profile isEmpty body = [] \<and> skills_usable (body ''skills'') \<longrightarrow>
      post_profile isEmpty body user_id d =
        Issued (case findOne_profile user_id (profiles d) of
                  Some profile \<Rightarrow> FindOneAndUpdate user_id (canonical_fields user_id body)
                | None \<Rightarrow> SaveNew (canonical_fields user_id body)) \<and>
      map fst (canonical_fields user_id body) =
        [''user''] @ filter (\<lambda>k. truthy_value (body k)) (text_fields @ [''skills'']) @
        [''social'']) \<and>
   map fst (canonical_social body) = filter (\<lambda>k. truthy_value (body k)) social_fields"
proof (intro conjI impI)
  assume i: "post_profile isEmpty body user_id d = Issued w"
  show v: "validate_profile isEmpty body = []"
    using i post_profile_invalid[of isEmpty body user_id d] by auto
  show u: "skills_usable (body ''skills'')"
    using i v post_profile_throws[of isEmpty body user_id d] by auto
  show "written_fields w = canonical_fields user_id body"
    using i post_profile_issues[OF v u, of user_id d]
    by (auto simp: written_fields_def split: option.splits)
next
  assume a: "validate_profile isEmpty body = [] \<and> skills_usable (body ''skills'')"
  then show "post_profile isEmpty body user_id d =
        Issued (case findOne_profile user_id (profiles d) of
                  Some profile \<Rightarrow> FindOneAndUpdate user_id (canonical_fields user_id body)
                | None \<Rightarrow> SaveNew (canonical_fields user_id body))"
    by (simp add: post_profile_issues)
  from a show "map fst (canonical_fields user_id body) =
        [''user''] @ filter (\<lambda>k. truthy_value (body k)) (text_fields @ [''skills'']) @
        [''social'']"
    by (simp add: canonical_fields_def map_fst_entries map_fst_skills_entry)
next
  show "map fst (canonical_social body) = filter (\<lambda>k. truthy_value (body k)) social_fields"
    by (simp add: canonical_social_def map_fst_entries)
qed

text \<open>
  The profile of \<open>u1\<close> exists, so the write is an update. The skills \<open>" HTML,CSS"\<close>
  followed by a no-break space give the pieces \<open>HTML\<close> and \<open>CSS\<close>.
\<close>

theorem profile_fields_written_witness:
  "validate_profile sample_isEmpty body_2 = [] \<and> skills_usable (body_2 ''skills'') \<and>
   post_profile sample_isEmpty body_2 ''u1'' db_1 =
     Issued (FindOneAndUpdate ''u1''
       [(''user'', Id ''u1''), (''website'', Val (JStr (lit ''https://ann.example.org''))),
        (''status'', Val (JStr (lit ''Developer''))),
        (''skills'', Val (JArr [JStr (lit ''HTML''), JStr (lit ''CSS'')])),
        (''social'', Obj [(''twitter'', Val (JStr (lit ''@ann'')))])]) \<and>
   map fst (canonical_fields ''u1'' body_2) =
     [''user'', ''website'', ''status'', ''skills'', ''social'']"
proof -
  have v: "validate_profile sample_isEmpty body_2 = []"
    by (simp add: validate_profile_def sample_isEmpty_def body_2_def lit_def)
  have u: "skills_usable (body_2 ''skills'')"
    by (simp add: skills_usable_def body_2_def)
  have f: "findOne_profile ''u1'' (profiles db_1) = Some profile_1"
    by (simp add: findOne_profile_def db_1_def profile_1_def)
  have c: "canonical_fields ''u1'' body_2 =
       [(''user'', Id ''u1''), (''website'', Val (JStr (lit ''https://ann.example.org''))),
        (''status'', Val (JStr (lit ''Developer''))),
        (''skills'', Val (JArr [JStr (lit ''HTML''), JStr (lit ''CSS'')])),
        (''social'', Obj [(''twitter'', Val (JStr (lit ''@ann'')))])]"
    by (simp add: canonical_fields_def canonical_social_def field_entry_def skills_entry_def
        text_fields_def social_fields_def body_2_def lit_def trim_def is_space_def)
  have t: "filter (\<lambda>k. truthy_value (body_2 k)) text_fields = [''website'', ''status'']"
    "truthy_value (body_2 ''skills'')"
    by (simp_all add: text_fields_def truthy_value_def body_2_def lit_def)
  from profile_fields_written[of sample_isEmpty body_2 "''u1''" db_1] v u
  have "post_profile sample_isEmpty body_2 ''u1'' db_1 =
          Issued (case findOne_profile ''u1'' (profiles db_1) of
                    Some profile \<Rightarrow> FindOneAndUpdate ''u1'' (canonical_fields ''u1'' body_2)
                  | None \<Rightarrow> SaveNew (canonical_fields ''u1'' body_2))"
    and "map fst (canonical_fields ''u1'' body_2) =
          [''user''] @ filter (\<lambda>k. truthy_value (body_2 k)) (text_fields @ [''skills'']) @
          [''social'']"
    by blast+
  then have "post_profile sample_isEmpty body_2 ''u1'' db_1 =
          Issued (FindOneAndUpdate ''u1'' (canonical_fields ''u1'' body_2))"
    and "map fst (canonical_fields ''u1'' body_2) =
          [''user'', ''website'', ''status'', ''skills'', ''social'']"
    by (simp_all add: f t)
  with v u show ?thesis
    by (simp add: c)
qed

text \<open>
  C8, as the claim puts it, fails for a field that the request carries with an empty
  value: the company is present in the body, yet the object written has no company; and
  the object written has a social field although the body has none of the social fields.
\<close>

theorem empty_field_not_written:
  "post_profile sample_isEmpty body_1 ''u1'' \<lparr>users = [], profiles = [], posts = []\<rparr> =
     Issued (SaveNew
       [(''user'', Id ''u1''), (''status'', Val (JStr (lit ''Developer''))),
        (''skills'', Val (JArr [JStr (lit ''HTML''), JStr (lit ''CSS''), JStr (lit ''JS'')])),
        (''social'', Obj [])]) \<and>
   body_1 ''company'' = Some (JStr []) \<and>
   ''company'' \<in> dom body_1 \<and>
   ''company'' \<notin> fst ` set
     [(''user'', Id ''u1''), (''status'', Val (JStr (lit ''Developer''))),
      (''skills'', Val (JArr [JStr (lit ''HTML''), JStr (lit ''CSS''), JStr (lit ''JS'')])),
      (''social'', Obj [])] \<and>
   ''social'' \<notin> dom body_1 \<and>
   ''social'' \<in> fst ` set
     [(''user'', Id ''u1''), (''status'', Val (JStr (lit ''Developer''))),
      (''skills'', Val (JArr [JStr (lit ''HTML''), JStr (lit ''CSS''), JStr (lit ''JS'')])),
      (''social'', Obj [])]"
proof -
  have b: "build_profileFields ''u1'' body_1 =
     Inr [(''user'', Id ''u1''), (''status'', Val (JStr (lit ''Developer''))),
      (''skills'', Val (JArr [JStr (lit ''HTML''), JStr (lit ''CSS''), JStr (lit ''JS'')])),
      (''social'', Obj [])]"
    by (simp add: build_profileFields_def build_social_def assign_if_def assign_skills_def
        body_1_def Let_def lit_def trim_def is_space_def)
  have v: "validate_profile sample_isEmpty body_1 = []"
    by (simp add: validate_profile_def sample_isEmpty_def body_1_def lit_def)
  have p: "post_profile sample_isEmpty body_1 ''u1'' \<lparr>users = [], profiles = [], posts = []\<rparr> =
     Issued (SaveNew
       [(''user'', Id ''u1''), (''status'', Val (JStr (lit ''Developer''))),
        (''skills'', Val (JArr [JStr (lit ''HTML''), JStr (lit ''CSS''), JStr (lit ''JS'')])),
        (''social'', Obj [])])"
    by (simp add: post_profile_def v b findOne_profile_def Let_def)
  have d: "body_1 ''company'' = Some (JStr [])" "''company'' \<in> dom body_1"
    "''social'' \<notin> dom body_1"
    by (simp_all add: body_1_def dom_def)
  from p d show ?thesis by simp
qed

end
